theory Spec2Isabelle
  imports Main
begin

section \<open>The token ledger of the emoji generator\<close>

text \<open>
  A shallow embedding of \<^verbatim>\<open>src/server/database.js\<close> (the ledger: \<^verbatim>\<open>getUserTokens\<close>,
  \<^verbatim>\<open>deductToken\<close>, \<^verbatim>\<open>addTokens\<close>, \<^verbatim>\<open>logTokenTransaction\<close>) and of the
  \<^verbatim>\<open>/api/generate-emoji\<close> handler of \<^verbatim>\<open>src/server/server.js\<close>.

  The SQLite database is an explicit state that every operation takes and returns.
  A promise that rejects is the left summand of the result, a promise that resolves the
  right one. The statements of one operation take effect in program order, and an operation
  runs to its end (its fire-and-forget audit insert included) before the next one starts.
  Integers of SQLite and numbers of JavaScript are \<^typ>\<open>int\<close>: no claim depends on
  overflow. The columns \<^verbatim>\<open>id\<close>, \<^verbatim>\<open>created_at\<close> and \<^verbatim>\<open>updated_at\<close>, and the field
  \<^verbatim>\<open>createdAt\<close> of a returned account, are clock and counter values that no claim reads;
  they are left out.
\<close>

subsection \<open>Tables\<close>

text \<open>A row of \<^verbatim>\<open>users\<close>, keyed by its \<^verbatim>\<open>email\<close> column (declared \<^verbatim>\<open>UNIQUE NOT NULL\<close>).\<close>

record user_row =
  tokens :: int
  total_used :: int

text \<open>The \<^verbatim>\<open>CHECK(type IN ('purchase', 'usage', 'refund', 'bonus'))\<close> of the schema.\<close>

datatype tx_type = Purchase | Usage | Refund | Bonus

record tx_row =
  user_email :: string
  tx_type :: tx_type
  amount :: int
  description :: string
  stripe_session_id :: "string option"

text \<open>
  The database: \<^verbatim>\<open>users\<close> as a map from email to row, \<^verbatim>\<open>token_transactions\<close> as
  the list of its rows in insertion order. The foreign key of \<^verbatim>\<open>user_email\<close> is
  declared but the code never switches enforcement on, so a row for an unknown email
  is accepted.
\<close>

record db =
  users :: "string \<rightharpoonup> user_row"
  token_transactions :: "tx_row list"

text \<open>What \<^verbatim>\<open>getUserTokens\<close> resolves to.\<close>

record account =
  balance :: int
  totalUsed :: int

subsection \<open>Storage errors\<close>

text \<open>
  Each statement whose callback tests \<^verbatim>\<open>err\<close> is a site that may fail. A fault
  assignment says, for one call of an operation, which sites fail and with which message.
  \<^verbatim>\<open>BEGIN\<close>, \<^verbatim>\<open>COMMIT\<close> and \<^verbatim>\<open>ROLLBACK\<close> are run without a callback: the code has
  no branch for their failure and neither has the model.
\<close>

datatype site =
    GUT_get    \<comment> \<open>\<^verbatim>\<open>getUserTokens\<close>: \<^verbatim>\<open>SELECT * FROM users WHERE email = ?\<close>\<close>
  | GUT_run    \<comment> \<open>\<^verbatim>\<open>getUserTokens\<close>: \<^verbatim>\<open>INSERT INTO users\<close>\<close>
  | LOG_run    \<comment> \<open>\<^verbatim>\<open>logTokenTransaction\<close>: \<^verbatim>\<open>INSERT INTO token_transactions\<close>\<close>
  | DT_get     \<comment> \<open>\<^verbatim>\<open>deductToken\<close>: \<^verbatim>\<open>SELECT tokens FROM users WHERE email = ?\<close>\<close>
  | DT_run     \<comment> \<open>\<^verbatim>\<open>deductToken\<close>: \<^verbatim>\<open>UPDATE users SET tokens = tokens - 1 ...\<close>\<close>
  | AT_run     \<comment> \<open>\<^verbatim>\<open>addTokens\<close>: \<^verbatim>\<open>UPDATE users SET tokens = tokens + ? ...\<close>\<close>

datatype js_error = Error string | ReferenceError string

fun message :: "js_error \<Rightarrow> string" where
  "message (Error m) = m"
| "message (ReferenceError m) = m"

type_synonym faults = "site \<Rightarrow> string option"

definition no_fault :: faults where
  "no_fault = (\<lambda>_. None)"

subsection \<open>logTokenTransaction\<close>

text \<open>
  Inserts one audit row and resolves to \<^verbatim>\<open>this.lastID\<close>, the row id: with
  \<^verbatim>\<open>AUTOINCREMENT\<close> and no deletion, the number of rows after the insert.
\<close>

definition logTokenTransaction ::
  "faults \<Rightarrow> string \<Rightarrow> tx_type \<Rightarrow> int \<Rightarrow> string \<Rightarrow> string option \<Rightarrow> db \<Rightarrow> (js_error + nat) \<times> db" where
  "logTokenTransaction f userEmail type amt descr stripeSessionId d =
     (case f LOG_run of
        Some m \<Rightarrow> (Inl (Error m), d)
      | None \<Rightarrow>
          (let d' = d\<lparr>token_transactions := token_transactions d @
                      [\<lparr>user_email = userEmail, tx_type = type, amount = amt,
                        description = descr, stripe_session_id = stripeSessionId\<rparr>]\<rparr>
           in (Inr (length (token_transactions d')), d')))"

subsection \<open>getUserTokens\<close>

text \<open>
  Returns the row of \<^verbatim>\<open>email\<close>, or creates it with 25 tokens. The bonus row is logged
  with \<^verbatim>\<open>.catch(console.error)\<close>: the outcome of the insert is dropped.
\<close>

definition getUserTokens :: "faults \<Rightarrow> string \<Rightarrow> db \<Rightarrow> (js_error + account) \<times> db" where
  "getUserTokens f email d =
     (case f GUT_get of
        Some m \<Rightarrow> (Inl (Error m), d)
      | None \<Rightarrow>
          (case users d email of
             Some row \<Rightarrow> (Inr \<lparr>balance = tokens row, totalUsed = total_used row\<rparr>, d)
           | None \<Rightarrow>
               (case f GUT_run of
                  Some m \<Rightarrow> (Inl (Error m), d)
                | None \<Rightarrow>
                    (let d1 = d\<lparr>users := (users d)(email \<mapsto> \<lparr>tokens = 25, total_used = 0\<rparr>)\<rparr>;
                         d2 = snd (logTokenTransaction f email Bonus 25
                                     ''Welcome bonus - 25 free tokens'' None d1)
                     in (Inr \<lparr>balance = 25, totalUsed = 0\<rparr>, d2)))))"

subsection \<open>deductToken\<close>

text \<open>
  The \<^verbatim>\<open>UPDATE ... WHERE email = ? AND tokens > 0\<close> of \<^verbatim>\<open>deductToken\<close>, with the
  number of rows it changed (\<^verbatim>\<open>this.changes\<close>).
\<close>

definition update_deduct :: "string \<Rightarrow> db \<Rightarrow> nat \<times> db" where
  "update_deduct email d =
     (case users d email of
        None \<Rightarrow> (0, d)
      | Some row \<Rightarrow>
          (if tokens row > 0
           then (1, d\<lparr>users := (users d)(email \<mapsto>
                        row\<lparr>tokens := tokens row - 1, total_used := total_used row + 1\<rparr>)\<rparr>)
           else (0, d)))"

text \<open>
  \<^verbatim>\<open>BEGIN TRANSACTION\<close> keeps the state to which \<^verbatim>\<open>ROLLBACK\<close> returns. The usage row
  is logged after \<^verbatim>\<open>COMMIT\<close>, outside the transaction, and the outcome of that insert
  is dropped (\<^verbatim>\<open>.catch(console.error)\<close>) before the promise resolves to \<^verbatim>\<open>true\<close>.
\<close>

definition deductToken :: "faults \<Rightarrow> string \<Rightarrow> db \<Rightarrow> (js_error + bool) \<times> db" where
  "deductToken f email d =
     (let begun = d in
      case f DT_get of
        Some m \<Rightarrow> (Inl (Error m), begun)
      | None \<Rightarrow>
          (case users d email of
             None \<Rightarrow> (Inr False, begun)
           | Some row \<Rightarrow>
               (if tokens row \<le> 0 then (Inr False, begun)
                else
                  (case f DT_run of
                     Some m \<Rightarrow> (Inl (Error m), begun)
                   | None \<Rightarrow>
                       (case update_deduct email d of (changes, d1) \<Rightarrow>
                          if changes = 0 then (Inr False, begun)
                          else
                            (let d2 = snd (logTokenTransaction f email Usage (- 1)
                                             ''Emoji generation'' None d1)
                             in (Inr True, d2)))))))"

subsection \<open>addTokens\<close>

text \<open>The \<^verbatim>\<open>UPDATE users SET tokens = tokens + ? WHERE email = ?\<close> of \<^verbatim>\<open>addTokens\<close>.\<close>

definition update_add :: "int \<Rightarrow> string \<Rightarrow> db \<Rightarrow> nat \<times> db" where
  "update_add amt email d =
     (case users d email of
        None \<Rightarrow> (0, d)
      | Some row \<Rightarrow> (1, d\<lparr>users := (users d)(email \<mapsto> row\<lparr>tokens := tokens row + amt\<rparr>)\<rparr>))"

text \<open>
  The parameters \<^verbatim>\<open>description = 'Token purchase'\<close> and \<^verbatim>\<open>stripeSessionId = null\<close>
  have defaults: an argument left out is \<open>None\<close>. The update runs outside any transaction,
  the number of rows it changed is not read, the audit row is always of type
  \<^verbatim>\<open>'purchase'\<close>, and the result is that of \<^verbatim>\<open>getUserTokens\<close> afterwards.
\<close>

definition addTokens ::
  "faults \<Rightarrow> string \<Rightarrow> int \<Rightarrow> string option \<Rightarrow> string option \<Rightarrow> db \<Rightarrow> (js_error + account) \<times> db" where
  "addTokens f email amt descr stripeSessionId d =
     (let descr' = (case descr of None \<Rightarrow> ''Token purchase'' | Some s \<Rightarrow> s) in
      case f AT_run of
        Some m \<Rightarrow> (Inl (Error m), d)
      | None \<Rightarrow>
          (let d1 = snd (update_add amt email d) in
           case logTokenTransaction f email Purchase amt descr' stripeSessionId d1 of
             (Inl e, d2) \<Rightarrow> (Inl e, d2)
           | (Inr lastID, d2) \<Rightarrow> getUserTokens f email d2))"

subsection \<open>Sequences of ledger operations\<close>

text \<open>
  The three operations that \<^verbatim>\<open>server.js\<close> calls on the ledger, and a run of
  them one after the other with no storage error.
\<close>

datatype ledger_op =
    GetUserTokens string
  | DeductToken string
  | AddTokens string int "string option" "string option"

fun step :: "ledger_op \<Rightarrow> db \<Rightarrow> db" where
  "step (GetUserTokens email) d = snd (getUserTokens no_fault email d)"
| "step (DeductToken email) d = snd (deductToken no_fault email d)"
| "step (AddTokens email amt descr sid) d = snd (addTokens no_fault email amt descr sid d)"

fun run :: "ledger_op list \<Rightarrow> db \<Rightarrow> db" where
  "run [] d = d"
| "run (x # xs) d = run xs (step x d)"

text \<open>The sum of the amounts of the audit rows logged for one account.\<close>

definition sum_amounts :: "string \<Rightarrow> db \<Rightarrow> int" where
  "sum_amounts email d =
     sum_list (map amount (filter (\<lambda>r. user_email r = email) (token_transactions d)))"

text \<open>The account has a row and its stored balance is the sum of its audit rows.\<close>

definition reconstructs :: "string \<Rightarrow> db \<Rightarrow> bool" where
  "reconstructs email d =
     (case users d email of
        None \<Rightarrow> False
      | Some row \<Rightarrow> tokens row = sum_amounts email d)"

text \<open>The database after \<^verbatim>\<open>initDatabase\<close> on a new file: both tables empty.\<close>

definition empty_db :: db where
  "empty_db = \<lparr>users = Map.empty, token_transactions = []\<rparr>"

section \<open>The generate-emoji request handler\<close>

text \<open>
  A JavaScript string is a sequence of UTF-16 code units. The description is the one
  string of the request whose characters the handler inspects (through
  \<^verbatim>\<open>String.prototype.trim\<close>), so it is modelled as the list of its code units: the
  letter a is 97, the no-break space U+00A0 is the one code unit 160, whatever bytes
  carried it in the multipart body.
\<close>

type_synonym js_string = "nat list"

text \<open>
  The request as the handler reads it: \<^verbatim>\<open>req.file\<close> (the stored file name of the
  upload, if any) and the form fields \<^verbatim>\<open>description\<close> and \<^verbatim>\<open>userEmail\<close> of
  \<^verbatim>\<open>req.body\<close>; \<open>None\<close> is \<^verbatim>\<open>undefined\<close>. The fields \<^verbatim>\<open>removeBackground\<close> and
  \<^verbatim>\<open>emojify\<close> only travel to the image-generation call.
\<close>

record request =
  req_file :: "string option"
  body_description :: "js_string option"
  body_userEmail :: "string option"

text \<open>What \<^verbatim>\<open>geminiService.generateEmoji\<close> returns, as far as the handler reads it.\<close>

record emoji =
  userPath :: string
  filename :: string
  prompt :: string

text \<open>
  A JSON response: an error body \<^verbatim>\<open>{error}\<close> or \<^verbatim>\<open>{error, tokensNeeded: true}\<close> with
  its status, or the success body (status 200) with \<^verbatim>\<open>originalImage\<close>,
  \<^verbatim>\<open>generatedImage\<close>, \<^verbatim>\<open>filename\<close>, \<^verbatim>\<open>prompt\<close> and \<^verbatim>\<open>tokensRemaining\<close>.
\<close>

datatype response =
    ErrorJson (status: nat) (error: string) (tokensNeeded: bool)
  | SuccessJson "string option" string string string int

text \<open>
  The handler either sends a response, or its promise rejects with an error that escaped
  its \<^verbatim>\<open>catch\<close> block, in which case the handler has sent nothing.
\<close>

datatype outcome = Responded response | Rejected js_error

text \<open>
  An identifier read in some block is bound to a value there, or not declared in any
  enclosing scope; reading an undeclared identifier throws \<^verbatim>\<open>ReferenceError\<close>.
\<close>

datatype 'a binding = Unbound | Bound 'a

text \<open>
  The code units that \<^verbatim>\<open>String.prototype.trim\<close> strips: the WhiteSpace and
  LineTerminator code points of ECMAScript, all of them in the basic plane.
  \<^item> WhiteSpace: U+0009 (tab), U+000B (vertical tab), U+000C (form feed), U+FEFF (byte
    order mark) and the Unicode space separators U+0020, U+00A0, U+1680,
    U+2000 to U+200A, U+202F, U+205F, U+3000;
  \<^item> LineTerminator: U+000A (line feed), U+000D (carriage return), U+2028, U+2029.
\<close>

definition js_space :: "nat \<Rightarrow> bool" where
  "js_space c =
     (c \<in> set [0x0009, 0x000A, 0x000B, 0x000C, 0x000D, 0x0020, 0x00A0, 0x1680,
                0x2028, 0x2029, 0x202F, 0x205F, 0x3000, 0xFEFF]
      \<or> (0x2000 \<le> c \<and> c \<le> 0x200A))"

text \<open>\<^verbatim>\<open>String.prototype.trim\<close>: the string without its leading and trailing white space.\<close>

definition trim :: "js_string \<Rightarrow> js_string" where
  "trim s = rev (dropWhile js_space (rev (dropWhile js_space s)))"

text \<open>\<^verbatim>\<open>!description?.trim()\<close>: true for \<^verbatim>\<open>undefined\<close> and for a string that trims to empty.\<close>

definition no_description :: "js_string option \<Rightarrow> bool" where
  "no_description descr =
     (case descr of None \<Rightarrow> True | Some s \<Rightarrow> trim s = [])"

text \<open>
  The \<^verbatim>\<open>catch (error)\<close> block of the handler, after \<^verbatim>\<open>console.error\<close>: it reads the
  identifier \<^verbatim>\<open>userEmail\<close>; when that is bound to a non-empty string it awaits
  \<^verbatim>\<open>addTokens(userEmail, 1, 'Refund - Generation failed')\<close>, whose rejection is caught
  and logged; then it responds 500 with the message of the original error. The number
  of image-generation calls made so far is passed through.
\<close>

definition catch_block ::
  "faults \<Rightarrow> string option binding \<Rightarrow> js_error \<Rightarrow> nat \<Rightarrow> db \<Rightarrow> outcome \<times> nat \<times> db" where
  "catch_block f userEmail err calls d =
     (case userEmail of
        Unbound \<Rightarrow> (Rejected (ReferenceError ''userEmail is not defined''), calls, d)
      | Bound v \<Rightarrow>
          (let d' = (case v of
                       None \<Rightarrow> d
                     | Some email \<Rightarrow>
                         if email = [] then d
                         else snd (addTokens f email 1 (Some ''Refund - Generation failed'') None d))
           in (Responded (ErrorJson 500 (''Failed to generate emoji: '' @ message err) False),
               calls, d')))"

text \<open>
  The handler of \<^verbatim>\<open>POST /api/generate-emoji\<close>. Its parameters beside the request and
  the database:
  \<^item> \<open>f\<close>, the storage faults of this request;
  \<^item> \<open>geminiService\<close>, whether the module-level service object was initialised (it stays
    \<^verbatim>\<open>undefined\<close> when the constructor threw at start-up);
  \<^item> \<open>gen\<close>, what the awaited \<^verbatim>\<open>geminiService.generateEmoji(...)\<close> does for this
    request: it throws or returns;
  \<^item> \<open>others\<close>, the writes that other requests commit while this one is suspended between
    its balance check and its deduction (the identity when the request runs alone).

  \<^verbatim>\<open>const { description, userEmail } = req.body\<close> is declared inside the \<^verbatim>\<open>try\<close>
  block. A \<^verbatim>\<open>const\<close> is scoped to its block, and neither the handler function nor the
  module declares another \<^verbatim>\<open>userEmail\<close>, so in the \<^verbatim>\<open>catch\<close> block the identifier is
  not bound: every path into the \<^verbatim>\<open>catch\<close> block passes \<open>Unbound\<close>.

  The result is the outcome, the number of image-generation calls made, and the database.
\<close>

definition generate_emoji ::
  "faults \<Rightarrow> bool \<Rightarrow> js_error + emoji \<Rightarrow> (db \<Rightarrow> db) \<Rightarrow> request \<Rightarrow> db \<Rightarrow> outcome \<times> nat \<times> db" where
  "generate_emoji f geminiService gen others req d =
     (if req_file req = None \<and> no_description (body_description req)
      then (Responded (ErrorJson 400
              ''Please provide either an image file or a description'' False), 0, d)
      else
        (case body_userEmail req of
           None \<Rightarrow> (Responded (ErrorJson 400 ''User email is required'' False), 0, d)
         | Some userEmail \<Rightarrow>
             if userEmail = []
             then (Responded (ErrorJson 400 ''User email is required'' False), 0, d)
             else
               (case getUserTokens f userEmail d of
                  (Inl e, d1) \<Rightarrow> catch_block f Unbound e 0 d1
                | (Inr userTokenData, d1) \<Rightarrow>
                    if balance userTokenData \<le> 0
                    then (Responded (ErrorJson 402
                            ''Insufficient tokens. Please purchase more tokens to continue generating emojis.''
                            True), 0, d1)
                    else
                      (case deductToken f userEmail (others d1) of
                         (Inl e, d2) \<Rightarrow> catch_block f Unbound e 0 d2
                       | (Inr tokenDeducted, d2) \<Rightarrow>
                           if \<not> tokenDeducted
                           then (Responded (ErrorJson 402
                                   ''Failed to deduct token. Please try again.'' True), 0, d2)
                           else if \<not> geminiService
                           then (Responded (ErrorJson 500
                                   ''Gemini service not available. Please check your API key configuration.''
                                   False), 0, d2)
                           else
                             (case gen of
                                Inl e \<Rightarrow> catch_block f Unbound e 1 d2
                              | Inr result \<Rightarrow>
                                  (case getUserTokens f userEmail d2 of
                                     (Inl e, d3) \<Rightarrow> catch_block f Unbound e 1 d3
                                   | (Inr updatedTokens, d3) \<Rightarrow>
                                       (Responded (SuccessJson
                                          (map_option (\<lambda>n. ''/'' @ n) (req_file req))
                                          (''/'' @ userPath result) (filename result)
                                          (prompt result) (balance updatedTokens)),
                                        1, d3)))))))"

text \<open>The purchase rows of the log: the rows that only \<^verbatim>\<open>addTokens\<close> writes.\<close>

definition purchases :: "db \<Rightarrow> tx_row list" where
  "purchases d = filter (\<lambda>r. tx_type r = Purchase) (token_transactions d)"

section \<open>The payment webhook\<close>

text \<open>
  The \<^verbatim>\<open>checkout.session.completed\<close> object as the handler reads it: \<^verbatim>\<open>session.id\<close>
  and, of \<^verbatim>\<open>session.metadata\<close>, \<^verbatim>\<open>userEmail\<close>, the value of
  \<^verbatim>\<open>parseInt(session.metadata.tokens)\<close> (\<open>None\<close> for \<^verbatim>\<open>NaN\<close>) and \<^verbatim>\<open>package\<close>.
\<close>

record session =
  session_id :: string
  metadata_userEmail :: "string option"
  metadata_tokens :: "int option"
  metadata_package :: "string option"

record event =
  event_type :: string
  data_object :: session

datatype webhook_response = WebhookError nat string | Received

text \<open>
  The handler of \<^verbatim>\<open>POST /api/stripe-webhook\<close>. \<open>constructed\<close> is what
  \<^verbatim>\<open>stripe.webhooks.constructEvent\<close> does with the raw body and the signature: it throws
  or returns the event. For a completed checkout with a non-empty \<^verbatim>\<open>userEmail\<close> and a
  token count that is neither \<^verbatim>\<open>NaN\<close> nor 0, the handler awaits \<^verbatim>\<open>addTokens\<close> with
  \<^verbatim>\<open>session.id\<close> as \<^verbatim>\<open>stripeSessionId\<close>; a rejection is caught and logged. Every
  verified event is answered \<^verbatim>\<open>{received: true}\<close>.
\<close>

definition stripe_webhook :: "faults \<Rightarrow> js_error + event \<Rightarrow> db \<Rightarrow> webhook_response \<times> db" where
  "stripe_webhook f constructed d =
     (case constructed of
        Inl err \<Rightarrow> (WebhookError 400 (''Webhook Error: '' @ message err), d)
      | Inr event \<Rightarrow>
          (if event_type event = ''checkout.session.completed''
           then
             (let session = data_object event;
                  package = (case metadata_package session of
                               None \<Rightarrow> ''undefined'' | Some p \<Rightarrow> p)
              in case (metadata_userEmail session, metadata_tokens session) of
                   (Some userEmail, Some tokensToAdd) \<Rightarrow>
                     if userEmail \<noteq> [] \<and> tokensToAdd \<noteq> 0
                     then (Received,
                           snd (addTokens f userEmail tokensToAdd
                                  (Some (''Stripe purchase - '' @ package @ '' package''))
                                  (Some (session_id session)) d))
                     else (Received, d)
                 | _ \<Rightarrow> (Received, d))
           else (Received, d)))"

section \<open>Example data\<close>

definition alice :: string where
  "alice = ''a@example.com''"

text \<open>A database in which \<open>alice\<close> has just been created: 25 tokens and her bonus row.\<close>

definition db_alice :: db where
  "db_alice =
     \<lparr>users = [alice \<mapsto> \<lparr>tokens = 25, total_used = 0\<rparr>],
      token_transactions =
        [\<lparr>user_email = alice, tx_type = Bonus, amount = 25,
          description = ''Welcome bonus - 25 free tokens'', stripe_session_id = None\<rparr>]\<rparr>"

text \<open>A database in which \<open>alice\<close> has \<open>n\<close> tokens and an empty log.\<close>

definition db_tokens :: "int \<Rightarrow> db" where
  "db_tokens n = \<lparr>users = [alice \<mapsto> \<lparr>tokens = n, total_used = 0\<rparr>], token_transactions = []\<rparr>"

text \<open>A text-only request of \<open>alice\<close>, with the description \<^verbatim>\<open>a happy cat\<close>.\<close>

definition req_alice :: request where
  "req_alice = \<lparr>req_file = None, body_description = Some [97, 32, 104, 97, 112, 112, 121, 32, 99, 97, 116],
                body_userEmail = Some alice\<rparr>"

text \<open>
  A request of \<open>alice\<close> with no file and a description of white space only: a no-break
  space (U+00A0), an ideographic space (U+3000) and a line separator (U+2028).
\<close>

definition req_blank :: request where
  "req_blank = \<lparr>req_file = None, body_description = Some [0x00A0, 0x3000, 0x2028],
                body_userEmail = Some alice\<rparr>"

text \<open>The completed checkout of 100 tokens for \<open>alice\<close>.\<close>

definition checkout_alice :: event where
  "checkout_alice =
     \<lparr>event_type = ''checkout.session.completed'',
      data_object = \<lparr>session_id = ''cs_test_1'', metadata_userEmail = Some alice,
                     metadata_tokens = Some 100, metadata_package = Some ''100''\<rparr>\<rparr>"

text \<open>The faults in which the audit insert fails and every other statement succeeds.\<close>

definition log_fails :: faults where
  "log_fails =
     (\<lambda>s. if s = LOG_run then Some ''SQLITE_FULL: database or disk is full'' else None)"

section \<open>Properties of the ledger\<close>

subsection \<open>deductToken\<close>

text \<open>
  C4, as the code has it. For every user, when the balance read and the update of
  \<^verbatim>\<open>deductToken\<close> do not fail: with no account row, or with a balance that is zero or
  negative, \<^verbatim>\<open>deductToken\<close> resolves to false and leaves the whole database as it was
  (no balance change, no totalUsed change, no Transaction row); with a positive balance
  it resolves to true, the balance is one less, totalUsed is one more and every other
  account is untouched. The usage row comes after the commit: when its insert succeeds,
  exactly one row is appended to the log, of type usage and amount -1; when its insert
  fails, \<^verbatim>\<open>deductToken\<close> still resolves to true, the balance write stays, and no row
  is appended.
\<close>

theorem deductToken_spec:
  assumes "f DT_get = None" and "f DT_run = None"
  shows "(case users d email of
            None \<Rightarrow> deductToken f email d = (Inr False, d)
          | Some row \<Rightarrow>
              (if tokens row \<le> 0 then deductToken f email d = (Inr False, d)
               else deductToken f email d =
                 (Inr True,
                  d\<lparr>users := (users d)(email \<mapsto>
                        row\<lparr>tokens := tokens row - 1, total_used := total_used row + 1\<rparr>),
                    token_transactions := token_transactions d @
                      (case f LOG_run of
                         None \<Rightarrow>
                           [\<lparr>user_email = email, tx_type = Usage, amount = - 1,
                             description = ''Emoji generation'', stripe_session_id = None\<rparr>]
                       | Some m \<Rightarrow> [])\<rparr>)))"
  using assms
  by (simp add: deductToken_def update_deduct_def logTokenTransaction_def
      split: option.splits)

text \<open>
  \<open>alice\<close> with no token and with one token, no statement failing; and \<open>alice\<close> with
  two tokens, the audit insert failing.
\<close>

theorem deductToken_spec_witness:
  "no_fault DT_get = None \<and> no_fault DT_run = None \<and>
   log_fails DT_get = None \<and> log_fails DT_run = None \<and>
   deductToken no_fault alice (db_tokens 0) = (Inr False, db_tokens 0) \<and>
   deductToken no_fault alice (db_tokens 1) =
     (Inr True,
      \<lparr>users = [alice \<mapsto> \<lparr>tokens = 0, total_used = 1\<rparr>],
       token_transactions =
         [\<lparr>user_email = alice, tx_type = Usage, amount = - 1,
           description = ''Emoji generation'', stripe_session_id = None\<rparr>]\<rparr>) \<and>
   deductToken log_fails alice (db_tokens 2) =
     (Inr True,
      \<lparr>users = [alice \<mapsto> \<lparr>tokens = 1, total_used = 1\<rparr>], token_transactions = []\<rparr>)"
  using deductToken_spec [where f = no_fault and d = "db_tokens 0" and email = alice]
    deductToken_spec [where f = no_fault and d = "db_tokens 1" and email = alice]
    deductToken_spec [where f = log_fails and d = "db_tokens 2" and email = alice]
  by (simp add: no_fault_def log_fails_def db_tokens_def)

text \<open>
  A deduction for \<open>alice\<close> with one token, the audit insert failing: the balance is
  positive and \<^verbatim>\<open>deductToken\<close> resolves to true with the balance at 0 and one token
  used, but the log is still empty: no usage row of amount -1 was appended.
\<close>

theorem usage_row_missing_counterexample:
  "tokens (the (users (db_tokens 1) alice)) > 0 \<and>
   fst (deductToken log_fails alice (db_tokens 1)) = Inr True \<and>
   users (snd (deductToken log_fails alice (db_tokens 1))) alice =
     Some \<lparr>tokens = 0, total_used = 1\<rparr> \<and>
   token_transactions (snd (deductToken log_fails alice (db_tokens 1))) = [] \<and>
   token_transactions (snd (deductToken log_fails alice (db_tokens 1))) \<noteq>
     token_transactions (db_tokens 1) @
       [\<lparr>user_email = alice, tx_type = Usage, amount = - 1,
         description = ''Emoji generation'', stripe_session_id = None\<rparr>]"
  by (simp add: deductToken_def update_deduct_def logTokenTransaction_def log_fails_def
      db_tokens_def)

subsection \<open>addTokens\<close>

text \<open>
  C1, as the code has it. For every existing account, every amount and every external
  event id \<open>e\<close>, when no statement of \<^verbatim>\<open>addTokens\<close> fails: \<^verbatim>\<open>addTokens\<close> has no
  guard on the event id, so a second call with the same \<open>e\<close> is a second credit. After
  the two calls the balance is the first balance plus twice the amount, the log holds two
  purchase rows carrying \<open>e\<close>, and the account returned by the second call shows the
  balance after both credits.
\<close>

theorem addTokens_replay_adds_again:
  assumes "users d email = Some row"
    and "f AT_run = None" and "f LOG_run = None" and "f GUT_get = None"
  shows "addTokens f email amt descr (Some e) (snd (addTokens f email amt descr (Some e) d)) =
     (Inr \<lparr>balance = tokens row + amt + amt, totalUsed = total_used row\<rparr>,
      d\<lparr>users := (users d)(email \<mapsto> row\<lparr>tokens := tokens row + amt + amt\<rparr>),
        token_transactions := token_transactions d @
          [\<lparr>user_email = email, tx_type = Purchase, amount = amt,
            description = (case descr of None \<Rightarrow> ''Token purchase'' | Some s \<Rightarrow> s),
            stripe_session_id = Some e\<rparr>,
           \<lparr>user_email = email, tx_type = Purchase, amount = amt,
            description = (case descr of None \<Rightarrow> ''Token purchase'' | Some s \<Rightarrow> s),
            stripe_session_id = Some e\<rparr>]\<rparr>)"
  using assms
  by (simp add: addTokens_def update_add_def logTokenTransaction_def getUserTokens_def)

text \<open>Two credits of 100 tokens to \<open>alice\<close> under the same session id.\<close>

theorem addTokens_replay_adds_again_witness:
  "users db_alice alice = Some \<lparr>tokens = 25, total_used = 0\<rparr> \<and>
   no_fault AT_run = None \<and> no_fault LOG_run = None \<and> no_fault GUT_get = None \<and>
   fst (addTokens no_fault alice 100 None (Some ''cs_test_1'')
          (snd (addTokens no_fault alice 100 None (Some ''cs_test_1'') db_alice))) =
     Inr \<lparr>balance = 225, totalUsed = 0\<rparr>"
  using addTokens_replay_adds_again [where f = no_fault and d = db_alice and email = alice
      and row = "\<lparr>tokens = 25, total_used = 0\<rparr>" and amt = 100 and descr = None
      and e = "''cs_test_1''"]
  by (simp add: no_fault_def db_alice_def)

text \<open>
  The second call is not a no-op: called twice with the session id \<^verbatim>\<open>cs_test_1\<close>,
  \<^verbatim>\<open>addTokens\<close> returns a balance of 125 and then of 225; and the webhook, delivered
  twice with the same completed checkout, leaves \<open>alice\<close> with 225 tokens.
\<close>

theorem credit_replay_counterexample:
  "fst (addTokens no_fault alice 100 (Some ''Stripe purchase - 100 package'')
          (Some ''cs_test_1'') db_alice)
     = Inr \<lparr>balance = 125, totalUsed = 0\<rparr> \<and>
   fst (addTokens no_fault alice 100 (Some ''Stripe purchase - 100 package'')
          (Some ''cs_test_1'')
          (snd (addTokens no_fault alice 100 (Some ''Stripe purchase - 100 package'')
                  (Some ''cs_test_1'') db_alice)))
     = Inr \<lparr>balance = 225, totalUsed = 0\<rparr> \<and>
   users (snd (stripe_webhook no_fault (Inr checkout_alice) db_alice)) alice
     = Some \<lparr>tokens = 125, total_used = 0\<rparr> \<and>
   users (snd (stripe_webhook no_fault (Inr checkout_alice)
            (snd (stripe_webhook no_fault (Inr checkout_alice) db_alice)))) alice
     = Some \<lparr>tokens = 225, total_used = 0\<rparr>"
  by (simp add: stripe_webhook_def checkout_alice_def addTokens_def update_add_def
      logTokenTransaction_def getUserTokens_def no_fault_def db_alice_def alice_def)

text \<open>
  C5, at an account that has no row. On the empty database, a credit of 100 tokens to
  \<open>alice\<close> updates no row, logs a purchase of 100, and then \<^verbatim>\<open>getUserTokens\<close>
  creates the account: the returned and the stored balance are the 25 of a new account,
  and the 100 tokens are in the log only.
\<close>

theorem addTokens_unknown_account:
  "addTokens no_fault alice 100 (Some ''Stripe purchase - 100 package'') (Some ''cs_test_1'')
     empty_db =
     (Inr \<lparr>balance = 25, totalUsed = 0\<rparr>,
      \<lparr>users = [alice \<mapsto> \<lparr>tokens = 25, total_used = 0\<rparr>],
       token_transactions =
         [\<lparr>user_email = alice, tx_type = Purchase, amount = 100,
           description = ''Stripe purchase - 100 package'',
           stripe_session_id = Some ''cs_test_1''\<rparr>,
          \<lparr>user_email = alice, tx_type = Bonus, amount = 25,
           description = ''Welcome bonus - 25 free tokens'', stripe_session_id = None\<rparr>]\<rparr>)"
  by (simp add: addTokens_def update_add_def logTokenTransaction_def getUserTokens_def
      no_fault_def empty_db_def)

text \<open>
  C6, as the code has it. For every credit whose update and audit insert do not fail,
  the row that \<^verbatim>\<open>addTokens\<close> appends for the credit has type purchase, whether an
  external event id is supplied or not; it carries the amount, the description and the
  event id of the call. The only row that can follow it is the bonus row of the account
  creation, when the account had no row.
\<close>

theorem addTokens_logs_purchase:
  assumes "f AT_run = None" and "f LOG_run = None"
  shows "token_transactions (snd (addTokens f email amt descr sid d)) =
     token_transactions d @
       [\<lparr>user_email = email, tx_type = Purchase, amount = amt,
         description = (case descr of None \<Rightarrow> ''Token purchase'' | Some s \<Rightarrow> s),
         stripe_session_id = sid\<rparr>] @
       (if users d email = None \<and> f GUT_get = None \<and> f GUT_run = None
        then [\<lparr>user_email = email, tx_type = Bonus, amount = 25,
               description = ''Welcome bonus - 25 free tokens'', stripe_session_id = None\<rparr>]
        else [])"
  using assms
  by (simp add: addTokens_def update_add_def logTokenTransaction_def getUserTokens_def
      Let_def split: option.splits)

text \<open>The refund credit as the generate-emoji handler writes it, for \<open>alice\<close>.\<close>

theorem addTokens_logs_purchase_witness:
  "no_fault AT_run = None \<and> no_fault LOG_run = None \<and>
   token_transactions
     (snd (addTokens no_fault alice 1 (Some ''Refund - Generation failed'') None db_alice)) =
     token_transactions db_alice @
       [\<lparr>user_email = alice, tx_type = Purchase, amount = 1,
         description = ''Refund - Generation failed'', stripe_session_id = None\<rparr>]"
  using addTokens_logs_purchase [where f = no_fault and email = alice and amt = 1
      and descr = "Some ''Refund - Generation failed''" and sid = None and d = db_alice]
  by (simp add: no_fault_def db_alice_def)

text \<open>
  A credit of one token with the refund description and no external event id: the row it
  appends has type purchase, neither refund nor bonus.
\<close>

theorem refund_kind_counterexample:
  "tx_type (last (token_transactions
      (snd (addTokens no_fault alice 1 (Some ''Refund - Generation failed'') None db_alice))))
     = Purchase \<and>
   stripe_session_id (last (token_transactions
      (snd (addTokens no_fault alice 1 (Some ''Refund - Generation failed'') None db_alice))))
     = None \<and>
   tx_type (last (token_transactions
      (snd (addTokens no_fault alice 1 (Some ''Refund - Generation failed'') None db_alice))))
     \<noteq> Refund \<and>
   tx_type (last (token_transactions
      (snd (addTokens no_fault alice 1 (Some ''Refund - Generation failed'') None db_alice))))
     \<noteq> Bonus"
  by (simp add: addTokens_def update_add_def logTokenTransaction_def getUserTokens_def
      no_fault_def db_alice_def)

subsection \<open>The balance and the log\<close>

lemma reconstructs_getUserTokens:
  "reconstructs e d \<Longrightarrow> reconstructs e (snd (getUserTokens no_fault e' d))"
  by (cases "e' = e")
    (auto simp: reconstructs_def getUserTokens_def logTokenTransaction_def no_fault_def
      sum_amounts_def split: option.splits)

lemma reconstructs_deductToken:
  "reconstructs e d \<Longrightarrow> reconstructs e (snd (deductToken no_fault e' d))"
  by (cases "e' = e")
    (auto simp: reconstructs_def deductToken_def update_deduct_def logTokenTransaction_def
      no_fault_def sum_amounts_def split: option.splits)

lemma reconstructs_addTokens:
  "reconstructs e d \<Longrightarrow> reconstructs e (snd (addTokens no_fault e' amt descr sid d))"
  by (cases "e' = e")
    (auto simp: reconstructs_def addTokens_def update_add_def getUserTokens_def
      logTokenTransaction_def no_fault_def sum_amounts_def split: option.splits)

lemma reconstructs_step: "reconstructs e d \<Longrightarrow> reconstructs e (step x d)"
  by (cases x)
    (simp_all add: reconstructs_getUserTokens reconstructs_deductToken reconstructs_addTokens)

lemma reconstructs_run: "reconstructs e d \<Longrightarrow> reconstructs e (run xs d)"
  by (induction xs arbitrary: d) (simp_all add: reconstructs_step)

lemma reconstructs_created:
  "users d e = None \<Longrightarrow> sum_amounts e d = 0 \<Longrightarrow> reconstructs e (step (GetUserTokens e) d)"
  by (simp add: reconstructs_def getUserTokens_def logTokenTransaction_def no_fault_def
      sum_amounts_def)

text \<open>
  C3, as the code has it. For every account that \<^verbatim>\<open>getUserTokens\<close> creates while the
  log holds nothing for it, and after every finite sequence of further
  \<^verbatim>\<open>getUserTokens\<close>, \<^verbatim>\<open>deductToken\<close> and \<^verbatim>\<open>addTokens\<close> calls on any accounts with no
  storage error, the account has a row and its stored balance equals the sum of the
  amounts of all rows logged for it, the +25 bonus row of its creation included: the 25
  is counted once, as that row, not added to the sum.
\<close>

theorem balance_is_sum_of_log:
  assumes "users d e = None" and "sum_amounts e d = 0"
  shows "\<exists>row. users (run (GetUserTokens e # xs) d) e = Some row \<and>
           tokens row = sum_amounts e (run (GetUserTokens e # xs) d)"
proof -
  have "reconstructs e (step (GetUserTokens e) d)"
    using assms by (rule reconstructs_created)
  then have "reconstructs e (run xs (step (GetUserTokens e) d))"
    by (rule reconstructs_run)
  then show ?thesis
    by (auto simp: reconstructs_def split: option.splits)
qed

text \<open>Creation of \<open>alice\<close>, one deduction and one credit of 100: balance and sum are 124.\<close>

theorem balance_is_sum_of_log_witness:
  "users empty_db alice = None \<and> sum_amounts alice empty_db = 0 \<and>
   users (run [GetUserTokens alice, DeductToken alice, AddTokens alice 100 None (Some ''cs_1'')]
            empty_db) alice = Some \<lparr>tokens = 124, total_used = 1\<rparr> \<and>
   sum_amounts alice
     (run [GetUserTokens alice, DeductToken alice, AddTokens alice 100 None (Some ''cs_1'')]
        empty_db) = 124"
  using balance_is_sum_of_log [where d = empty_db and e = alice
      and xs = "[DeductToken alice, AddTokens alice 100 None (Some ''cs_1'')]"]
  by (simp add: getUserTokens_def deductToken_def addTokens_def update_deduct_def
      update_add_def logTokenTransaction_def no_fault_def empty_db_def sum_amounts_def
      alice_def)

text \<open>
  Right after the creation of \<open>alice\<close> the balance is 25 and the log sums to 25 (the
  bonus row), so the balance is not 25 plus the sum of the log.
\<close>

theorem balance_25_plus_log_counterexample:
  "users (run [GetUserTokens alice] empty_db) alice = Some \<lparr>tokens = 25, total_used = 0\<rparr> \<and>
   sum_amounts alice (run [GetUserTokens alice] empty_db) = 25 \<and>
   tokens (the (users (run [GetUserTokens alice] empty_db) alice))
     \<noteq> 25 + sum_amounts alice (run [GetUserTokens alice] empty_db)"
  by (simp add: getUserTokens_def logTokenTransaction_def no_fault_def empty_db_def
      sum_amounts_def alice_def)

subsection \<open>The audit row of a balance write\<close>

text \<open>
  C7, as the code has it. Every operation that writes a balance (the account creation of
  \<^verbatim>\<open>getUserTokens\<close>, a \<^verbatim>\<open>deductToken\<close> on a positive balance, an \<^verbatim>\<open>addTokens\<close> on
  an existing account) appends exactly one audit row when no storage statement fails, and
  a \<^verbatim>\<open>deductToken\<close> that resolves to false writes nothing. The audit insert comes after
  the balance write and outside its transaction (\<^verbatim>\<open>deductToken\<close> commits first, the
  other two use no transaction): when the audit insert fails, the balance write stays
  and no row is appended, \<^verbatim>\<open>getUserTokens\<close> and \<^verbatim>\<open>deductToken\<close> still resolve, and
  \<^verbatim>\<open>addTokens\<close> rejects with the error of the insert.
\<close>

theorem audit_row_after_balance_write:
  assumes "f GUT_get = None" and "f GUT_run = None" and "f DT_get = None"
    and "f DT_run = None" and "f AT_run = None"
  shows "(case users d email of
      None \<Rightarrow>
        getUserTokens f email d =
          (Inr \<lparr>balance = 25, totalUsed = 0\<rparr>,
           d\<lparr>users := (users d)(email \<mapsto> \<lparr>tokens = 25, total_used = 0\<rparr>),
             token_transactions := token_transactions d @
               (case f LOG_run of
                  None \<Rightarrow> [\<lparr>user_email = email, tx_type = Bonus, amount = 25,
                             description = ''Welcome bonus - 25 free tokens'',
                             stripe_session_id = None\<rparr>]
                | Some m \<Rightarrow> [])\<rparr>)
    | Some row \<Rightarrow>
        (if 0 < tokens row then
           deductToken f email d =
             (Inr True,
              d\<lparr>users := (users d)(email \<mapsto>
                   row\<lparr>tokens := tokens row - 1, total_used := total_used row + 1\<rparr>),
                token_transactions := token_transactions d @
                  (case f LOG_run of
                     None \<Rightarrow> [\<lparr>user_email = email, tx_type = Usage, amount = - 1,
                                description = ''Emoji generation'', stripe_session_id = None\<rparr>]
                   | Some m \<Rightarrow> [])\<rparr>)
         else deductToken f email d = (Inr False, d)) \<and>
        addTokens f email amt descr sid d =
          (case f LOG_run of
             None \<Rightarrow> Inr \<lparr>balance = tokens row + amt, totalUsed = total_used row\<rparr>
           | Some m \<Rightarrow> Inl (Error m),
           d\<lparr>users := (users d)(email \<mapsto> row\<lparr>tokens := tokens row + amt\<rparr>),
             token_transactions := token_transactions d @
               (case f LOG_run of
                  None \<Rightarrow> [\<lparr>user_email = email, tx_type = Purchase, amount = amt,
                             description =
                               (case descr of None \<Rightarrow> ''Token purchase'' | Some s \<Rightarrow> s),
                             stripe_session_id = sid\<rparr>]
                | Some m \<Rightarrow> [])\<rparr>))"
  using assms
  by (simp add: getUserTokens_def deductToken_def addTokens_def update_deduct_def
      update_add_def logTokenTransaction_def split: option.splits)

text \<open>
  The creation of \<open>alice\<close> with no fault, and a credit of 100 to \<open>alice\<close> with the audit
  insert failing.
\<close>

theorem audit_row_after_balance_write_witness:
  "no_fault GUT_get = None \<and> no_fault GUT_run = None \<and> no_fault DT_get = None \<and>
   no_fault DT_run = None \<and> no_fault AT_run = None \<and>
   log_fails GUT_get = None \<and> log_fails GUT_run = None \<and> log_fails DT_get = None \<and>
   log_fails DT_run = None \<and> log_fails AT_run = None \<and>
   getUserTokens no_fault alice empty_db = (Inr \<lparr>balance = 25, totalUsed = 0\<rparr>, db_alice) \<and>
   addTokens log_fails alice 100 None (Some ''cs_test_1'') db_alice =
     (Inl (Error ''SQLITE_FULL: database or disk is full''),
      db_alice\<lparr>users := [alice \<mapsto> \<lparr>tokens = 125, total_used = 0\<rparr>]\<rparr>)"
  using audit_row_after_balance_write [where f = no_fault and d = empty_db and email = alice]
    audit_row_after_balance_write [where f = log_fails and d = db_alice and email = alice
      and amt = 100 and descr = None and sid = "Some ''cs_test_1''"]
  by (simp add: no_fault_def log_fails_def empty_db_def db_alice_def)

text \<open>
  A deduction for \<open>alice\<close> whose audit insert fails: it resolves to true, the balance
  write is committed (24 tokens, one used), and the log is as it was.
\<close>

theorem audit_row_missing_counterexample:
  "deductToken log_fails alice db_alice =
     (Inr True, db_alice\<lparr>users := [alice \<mapsto> \<lparr>tokens = 24, total_used = 1\<rparr>]\<rparr>) \<and>
   token_transactions (snd (deductToken log_fails alice db_alice)) =
     token_transactions db_alice \<and>
   users (snd (deductToken log_fails alice db_alice)) alice \<noteq> users db_alice alice"
  by (simp add: deductToken_def update_deduct_def logTokenTransaction_def log_fails_def
      db_alice_def)

section \<open>Properties of the generate-emoji handler\<close>

lemma deductToken_False:
  "fst (deductToken f email d) = Inr False \<Longrightarrow> snd (deductToken f email d) = d"
  by (simp add: deductToken_def update_deduct_def Let_def split: option.splits if_splits)

lemma getUserTokens_Inr:
  "getUserTokens f email d = (Inr acct, d') \<Longrightarrow>
   users d' email = Some \<lparr>tokens = balance acct, total_used = totalUsed acct\<rparr>"
  by (auto simp: getUserTokens_def logTokenTransaction_def Let_def split: option.splits)

text \<open>
  The first input check sees all the white space that \<^verbatim>\<open>trim\<close> strips: a request
  with no file and a description of non-ASCII white space only is answered 400 before
  any ledger call, whatever the balance.
\<close>

lemma blank_description_400:
  "no_description (body_description req_blank) \<and>
   generate_emoji f geminiService gen others req_blank d =
     (Responded (ErrorJson 400
        ''Please provide either an image file or a description'' False), 0, d)"
  by (simp add: generate_emoji_def req_blank_def no_description_def trim_def js_space_def)

text \<open>
  C8. For every request that passes the input checks and whose balance query resolves:
  when the balance is zero or negative, or when \<^verbatim>\<open>deductToken\<close> resolves to false (the
  balance went to zero between the query and the deduction), the handler responds 402
  with an error message and \<^verbatim>\<open>tokensNeeded: true\<close>, makes no image-generation call,
  and leaves the ledger as the balance query and the other requests left it.
\<close>

theorem insufficient_tokens_402:
  assumes "\<not> (req_file req = None \<and> no_description (body_description req))"
    and "body_userEmail req = Some email" and "email \<noteq> []"
    and "getUserTokens f email d = (Inr acct, d')"
    and "balance acct \<le> 0 \<or> fst (deductToken f email (others d')) = Inr False"
  shows "generate_emoji f geminiService gen others req d =
     (Responded (ErrorJson 402
        (if balance acct \<le> 0
         then ''Insufficient tokens. Please purchase more tokens to continue generating emojis.''
         else ''Failed to deduct token. Please try again.'') True),
      0,
      if balance acct \<le> 0 then d' else others d')"
proof (cases "balance acct \<le> 0")
  case True
  with assms(1-4) show ?thesis
    by (simp add: generate_emoji_def)
next
  case False
  with assms(5) have ded: "fst (deductToken f email (others d')) = Inr False"
    by simp
  then have "snd (deductToken f email (others d')) = others d'"
    by (rule deductToken_False)
  with ded have "deductToken f email (others d') = (Inr False, others d')"
    by (simp add: prod_eq_iff)
  with False assms(1-4) show ?thesis
    by (simp add: generate_emoji_def)
qed

text \<open>
  \<open>alice\<close> with no token, alone; and \<open>alice\<close> with one token, which another request of
  hers deducts between the balance query and the deduction of this request.
\<close>

theorem insufficient_tokens_402_witness:
  "\<not> (req_file req_alice = None \<and> no_description (body_description req_alice)) \<and>
   body_userEmail req_alice = Some alice \<and> alice \<noteq> [] \<and>
   getUserTokens no_fault alice (db_tokens 0) =
     (Inr \<lparr>balance = 0, totalUsed = 0\<rparr>, db_tokens 0) \<and>
   generate_emoji no_fault True (Inr \<lparr>userPath = ''p'', filename = ''n'', prompt = ''q''\<rparr>)
       (\<lambda>x. x) req_alice (db_tokens 0) =
     (Responded (ErrorJson 402
        ''Insufficient tokens. Please purchase more tokens to continue generating emojis.''
        True), 0, db_tokens 0) \<and>
   getUserTokens no_fault alice (db_tokens 1) =
     (Inr \<lparr>balance = 1, totalUsed = 0\<rparr>, db_tokens 1) \<and>
   fst (deductToken no_fault alice (snd (deductToken no_fault alice (db_tokens 1)))) =
     Inr False \<and>
   generate_emoji no_fault True (Inr \<lparr>userPath = ''p'', filename = ''n'', prompt = ''q''\<rparr>)
       (\<lambda>x. snd (deductToken no_fault alice x)) req_alice (db_tokens 1) =
     (Responded (ErrorJson 402 ''Failed to deduct token. Please try again.'' True), 0,
      snd (deductToken no_fault alice (db_tokens 1)))"
  using insufficient_tokens_402 [where f = no_fault and req = req_alice and email = alice
      and d = "db_tokens 0" and d' = "db_tokens 0" and acct = "\<lparr>balance = 0, totalUsed = 0\<rparr>"
      and others = "\<lambda>x. x" and geminiService = True
      and gen = "Inr \<lparr>userPath = ''p'', filename = ''n'', prompt = ''q''\<rparr>"]
    insufficient_tokens_402 [where f = no_fault and req = req_alice and email = alice
      and d = "db_tokens 1" and d' = "db_tokens 1" and acct = "\<lparr>balance = 1, totalUsed = 0\<rparr>"
      and others = "\<lambda>x. snd (deductToken no_fault alice x)" and geminiService = True
      and gen = "Inr \<lparr>userPath = ''p'', filename = ''n'', prompt = ''q''\<rparr>"]
  by (simp add: req_alice_def alice_def no_description_def trim_def js_space_def
      getUserTokens_def deductToken_def update_deduct_def logTokenTransaction_def
      no_fault_def db_tokens_def)

text \<open>
  C10. For every request that passes the input checks, runs alone, and whose balance
  query resolves to a positive balance (an existing account, or the 25 tokens of a new
  one): when the image-generation service object was never initialised and the
  statements of \<^verbatim>\<open>deductToken\<close> do not fail, the handler deducts one token and then
  responds 500 by an early return. No image-generation call is made, the \<^verbatim>\<open>catch\<close>
  block does not run, no credit follows: the ledger is left exactly as the deduction
  left it, the balance one less than before the request.
\<close>

theorem no_service_no_refund:
  assumes "\<not> (req_file req = None \<and> no_description (body_description req))"
    and "body_userEmail req = Some email" and "email \<noteq> []"
    and "getUserTokens f email d = (Inr acct, d')"
    and "0 < balance acct"
    and "f DT_get = None" and "f DT_run = None"
  shows "generate_emoji f False gen (\<lambda>x. x) req d =
     (Responded (ErrorJson 500
        ''Gemini service not available. Please check your API key configuration.'' False),
      0,
      d'\<lparr>users := (users d')(email \<mapsto>
            \<lparr>tokens = balance acct - 1, total_used = totalUsed acct + 1\<rparr>),
         token_transactions := token_transactions d' @
           (case f LOG_run of
              None \<Rightarrow> [\<lparr>user_email = email, tx_type = Usage, amount = - 1,
                         description = ''Emoji generation'', stripe_session_id = None\<rparr>]
            | Some m \<Rightarrow> [])\<rparr>)"
proof -
  have row: "users d' email = Some \<lparr>tokens = balance acct, total_used = totalUsed acct\<rparr>"
    using assms(4) by (rule getUserTokens_Inr)
  have "deductToken f email d' =
     (Inr True,
      d'\<lparr>users := (users d')(email \<mapsto>
            \<lparr>tokens = balance acct - 1, total_used = totalUsed acct + 1\<rparr>),
         token_transactions := token_transactions d' @
           (case f LOG_run of
              None \<Rightarrow> [\<lparr>user_email = email, tx_type = Usage, amount = - 1,
                         description = ''Emoji generation'', stripe_session_id = None\<rparr>]
            | Some m \<Rightarrow> [])\<rparr>)"
    using row assms(5-7)
    by (simp add: deductToken_def update_deduct_def logTokenTransaction_def
        split: option.splits)
  with assms(1-5) show ?thesis
    by (simp add: generate_emoji_def)
qed

text \<open>\<open>alice\<close> with her 25 tokens and no service object: 500, and 24 tokens left.\<close>

theorem no_service_no_refund_witness:
  "\<not> (req_file req_alice = None \<and> no_description (body_description req_alice)) \<and>
   body_userEmail req_alice = Some alice \<and> alice \<noteq> [] \<and>
   getUserTokens no_fault alice db_alice = (Inr \<lparr>balance = 25, totalUsed = 0\<rparr>, db_alice) \<and>
   (0::int) < 25 \<and> no_fault DT_get = None \<and> no_fault DT_run = None \<and>
   generate_emoji no_fault False (Inl (Error ''unused'')) (\<lambda>x. x) req_alice db_alice =
     (Responded (ErrorJson 500
        ''Gemini service not available. Please check your API key configuration.'' False),
      0,
      \<lparr>users = [alice \<mapsto> \<lparr>tokens = 24, total_used = 1\<rparr>],
       token_transactions =
         [\<lparr>user_email = alice, tx_type = Bonus, amount = 25,
           description = ''Welcome bonus - 25 free tokens'', stripe_session_id = None\<rparr>,
          \<lparr>user_email = alice, tx_type = Usage, amount = - 1,
           description = ''Emoji generation'', stripe_session_id = None\<rparr>]\<rparr>)"
  using no_service_no_refund [where f = no_fault and req = req_alice and email = alice
      and d = db_alice and d' = db_alice and acct = "\<lparr>balance = 25, totalUsed = 0\<rparr>"
      and gen = "Inl (Error ''unused'')"]
  by (simp add: req_alice_def alice_def no_description_def trim_def js_space_def
      getUserTokens_def no_fault_def db_alice_def)

text \<open>
  On no path does the handler credit the account: a request that runs alone leaves the
  purchase rows of the log as they were, whatever the faults, the service and the
  outcome of the image-generation call. And whenever the image-generation call was made
  and threw, the handler's promise rejects with the \<^verbatim>\<open>ReferenceError\<close> of its
  \<^verbatim>\<open>catch\<close> block.
\<close>

lemma purchases_getUserTokens: "purchases (snd (getUserTokens f email d)) = purchases d"
  by (simp add: purchases_def getUserTokens_def logTokenTransaction_def Let_def
      split: option.splits)

lemma purchases_deductToken: "purchases (snd (deductToken f email d)) = purchases d"
  by (simp add: purchases_def deductToken_def update_deduct_def logTokenTransaction_def
      Let_def split: option.splits)

lemma generate_emoji_never_credits:
  "purchases (snd (snd (generate_emoji f geminiService gen (\<lambda>x. x) req d))) = purchases d"
proof -
  have g: "\<And>e x. getUserTokens f e x = (a, b) \<Longrightarrow> purchases b = purchases x" for a b
    using purchases_getUserTokens by (metis snd_conv)
  have t: "\<And>e x. deductToken f e x = (a, b) \<Longrightarrow> purchases b = purchases x" for a b
    using purchases_deductToken by (metis snd_conv)
  show ?thesis
    by (auto simp: generate_emoji_def catch_block_def
        split: option.splits sum.splits prod.splits dest!: g t)
qed

lemma generation_error_rejects:
  assumes "generate_emoji f geminiService (Inl e) others req d = (out, Suc n, d')"
  shows "out = Rejected (ReferenceError ''userEmail is not defined'')"
  using assms
  by (auto simp: generate_emoji_def catch_block_def
      split: option.splits sum.splits prod.splits if_splits)

text \<open>
  C2, at a request of \<open>alice\<close> (25 tokens) whose image-generation call throws. The
  deduction succeeds, the call is made and throws, and the \<^verbatim>\<open>catch\<close> block reads
  \<^verbatim>\<open>userEmail\<close>, which is not in scope there: the handler's promise rejects with a
  \<^verbatim>\<open>ReferenceError\<close>. \<^verbatim>\<open>addTokens\<close> is not called and the 500 response is not sent;
  the ledger keeps the deduction (24 tokens, one used, no refund row).
\<close>

theorem failed_generation_not_refunded:
  "generate_emoji no_fault True
     (Inl (Error ''No image data found in response. Response was text only.''))
     (\<lambda>x. x) req_alice db_alice =
   (Rejected (ReferenceError ''userEmail is not defined''), 1,
    \<lparr>users = [alice \<mapsto> \<lparr>tokens = 24, total_used = 1\<rparr>],
     token_transactions =
       [\<lparr>user_email = alice, tx_type = Bonus, amount = 25,
         description = ''Welcome bonus - 25 free tokens'', stripe_session_id = None\<rparr>,
        \<lparr>user_email = alice, tx_type = Usage, amount = - 1,
         description = ''Emoji generation'', stripe_session_id = None\<rparr>]\<rparr>)"
  by (simp add: generate_emoji_def catch_block_def req_alice_def db_alice_def alice_def
      no_description_def trim_def js_space_def getUserTokens_def deductToken_def
      update_deduct_def logTokenTransaction_def no_fault_def)

end
